theory Spec2Isabelle
  imports Main "HOL-Library.Sublist"
begin

section \<open>The stack transformation of butterfree\<close>

text \<open>
  An embedding of \<^verbatim>\<open>butterfree/core/transform/transformations/stack_transform.py\<close>.
  Python strings are \<open>string\<close>, the tuple of patterns is a list, a raised exception is the
  \<open>Inl\<close> branch of a sum.
\<close>

subsection \<open>Exceptions\<close>

text \<open>
  \<open>ValueError\<close> carries the message of line 124: the template and the value that
  \<^verbatim>\<open>format\<close> puts into it (the list \<^verbatim>\<open>dataframe.columns\<close>). \<open>ReError\<close> is
  \<^verbatim>\<open>re.error\<close>, raised by the regular expression engine on a pattern that does not
  compile. \<open>AttributeError\<close> is what \<^verbatim>\<open>self._parent.name\<close> raises while
  \<^verbatim>\<open>_parent\<close> is \<^verbatim>\<open>None\<close>. \<open>IndexError\<close> is what \<^verbatim>\<open>split[0]\<close> would raise
  on an empty list. \<open>AnalysisException\<close> is the table engine's error for a column it
  cannot resolve.
\<close>

datatype error =
    ValueError string "string list"
  | ReError
  | AttributeError
  | IndexError
  | AnalysisException

subsection \<open>The instance\<close>

text \<open>
  Modelled from the spec: the owning feature and the base class \<^verbatim>\<open>TransformComponent\<close>
  are not in the sources. The spec says that the output column name is resolved from an
  owning feature attached after construction, and that reading it before the binding fails
  when the name is accessed. So \<open>parent\<close> is \<open>None\<close> until a feature is attached.
\<close>

record feature =
  name :: string
  description :: string

record stack_transform =
  columns_names :: "string list"
  regex_enabled :: bool
  parent :: "feature option"

text \<open>\<^verbatim>\<open>__init__\<close> (lines 74 to 77): no check of the patterns, no error.\<close>

definition StackTransform_init :: "string list \<Rightarrow> bool \<Rightarrow> stack_transform" where
  "StackTransform_init columns_names' is_regex =
     \<lparr>columns_names = columns_names', regex_enabled = is_regex, parent = None\<rparr>"

subsection \<open>Strings\<close>

text \<open>
  \<^verbatim>\<open>str.split(sep)\<close> for a separator of one character: the segments between the
  occurrences of the separator, never an empty list.
\<close>

fun str_split :: "char \<Rightarrow> string \<Rightarrow> string list" where
  "str_split sep [] = [[]]"
| "str_split sep (c # cs) =
     (if c = sep then [] # str_split sep cs
      else (case str_split sep cs of
              [] \<Rightarrow> [[c]]
            | s # ss \<Rightarrow> (c # s) # ss))"

subsection \<open>The regular expression engine\<close>

text \<open>
  Python's \<^verbatim>\<open>re.match(pattern, string)\<close> is a parameter of the model. It raises
  \<^verbatim>\<open>re.error\<close> (\<open>Inl\<close>), returns \<^verbatim>\<open>None\<close> (\<open>Inr None\<close>), or returns a match
  object for a match that starts at position 0 of the string; the match object is modelled
  by the position where the match ends (\<open>Inr (Some n)\<close>: the pattern matches the first
  \<open>n\<close> characters). A match object is always true as a boolean.
\<close>

type_synonym re_match = "string \<Rightarrow> string \<Rightarrow> error + nat option"

text \<open>
  The engine on the patterns of the examples below: a pattern of ordinary characters matches
  exactly when the string starts with it, and the pattern \<^verbatim>\<open>(\<close> does not compile.
  No example uses a pattern with another metacharacter.
\<close>

definition re_match_plain :: re_match where
  "re_match_plain pattern string =
     (if pattern = ''('' then Inl ReError
      else if prefix pattern string then Inr (Some (length pattern))
      else Inr None)"

subsection \<open>The matcher\<close>

text \<open>\<^verbatim>\<open>_matches_pattern\<close> (lines 84 to 103).\<close>

definition matches_pattern ::
  "re_match \<Rightarrow> 'a stack_transform_scheme \<Rightarrow> string \<Rightarrow> string \<Rightarrow> error + bool" where
  "matches_pattern re self pattern column =
     (if regex_enabled self then
        (case re pattern column of
           Inl e \<Rightarrow> Inl e
         | Inr m \<Rightarrow> Inr (m \<noteq> None))
      else
        (let negate = prefix ''!'' pattern;
             pattern' = (if negate then drop 1 pattern else pattern);
             split = str_split CHR ''*'' pattern'
         in (case split of
               [] \<Rightarrow> Inl IndexError
             | _ # _ \<Rightarrow>
                 (let matches = (prefix (hd split) column \<and> suffix (last split) column)
                  in Inr (if \<not> negate then matches else \<not> matches)))))"

subsection \<open>The table engine\<close>

text \<open>
  Modelled from the spec: the table engine (PySpark) is not in the sources. The spec asks of
  it the ordered list of column names, an operation that builds for each row an array of the
  values of several columns, and an operation that explodes an array into one row for each
  element, the other columns duplicated. A table is its column names and its rows, each row
  holding one value for each column, in the order of the columns. Values are of any type
  \<open>'v\<close>; the coercion of the array's elements to a common type is not modelled.
\<close>

record 'v dataframe =
  columns :: "string list"
  rows :: "'v list list"


definition col_value :: "string list \<Rightarrow> 'v list \<Rightarrow> string \<Rightarrow> 'v option" where
  "col_value names r c = map_of (zip names r) c"

text \<open>\<^verbatim>\<open>array(*cols)\<close> on one row: the values of the columns \<open>cols\<close>, in that order.\<close>

fun array :: "string list \<Rightarrow> 'v list \<Rightarrow> string list \<Rightarrow> error + 'v list" where
  "array names r [] = Inr []"
| "array names r (c # cs) =
     (case col_value names r c of
        None \<Rightarrow> Inl AnalysisException
      | Some v \<Rightarrow>
          (case array names r cs of
             Inl e \<Rightarrow> Inl e
           | Inr vs \<Rightarrow> Inr (v # vs)))"

text \<open>
  The row \<open>r\<close> with the value \<open>v\<close> in the column \<open>n\<close>. PySpark's \<^verbatim>\<open>withColumn\<close> adds the
  column, or replaces the column of that name when the table has one.
\<close>

definition put_column :: "string list \<Rightarrow> string \<Rightarrow> 'v list \<Rightarrow> 'v \<Rightarrow> 'v list" where
  "put_column names n r v =
     (if n \<in> set names then map (\<lambda>(c, x). if c = n then v else x) (zip names r)
      else r @ [v])"

text \<open>\<^verbatim>\<open>explode\<close> on one row: one output row for each element of the array.\<close>

definition explode :: "string list \<Rightarrow> string \<Rightarrow> 'v list \<Rightarrow> 'v list \<Rightarrow> 'v list list" where
  "explode names n r a = map (put_column names n r) a"

fun explode_rows ::
  "string list \<Rightarrow> string \<Rightarrow> string list \<Rightarrow> 'v list list \<Rightarrow> error + 'v list list" where
  "explode_rows names n cols [] = Inr []"
| "explode_rows names n cols (r # rs) =
     (case array names r cols of
        Inl e \<Rightarrow> Inl e
      | Inr a \<Rightarrow>
          (case explode_rows names n cols rs of
             Inl e \<Rightarrow> Inl e
           | Inr out \<Rightarrow> Inr (explode names n r a @ out)))"

text \<open>\<^verbatim>\<open>dataframe.withColumn(n, explode(array(*cols)))\<close>.\<close>

definition withColumn :: "'v dataframe \<Rightarrow> string \<Rightarrow> string list \<Rightarrow> error + 'v dataframe" where
  "withColumn df n cols =
     (if \<not> set cols \<subseteq> set (columns df) then Inl AnalysisException
      else
        (case explode_rows (columns df) n cols (rows df) of
           Inl e \<Rightarrow> Inl e
         | Inr out \<Rightarrow>
             Inr \<lparr>columns = (if n \<in> set (columns df) then columns df else columns df @ [n]),
                  rows = out\<rparr>))"

subsection \<open>The transformation\<close>

text \<open>
  \<^verbatim>\<open>any(self._matches_pattern(pattern, column) for pattern in self.columns_names)\<close>
  (lines 118 to 120): the patterns are tried in order, the first match ends the search, and
  an exception of the matcher ends it too.
\<close>

fun any_matches ::
  "re_match \<Rightarrow> 'a stack_transform_scheme \<Rightarrow> string list \<Rightarrow> string \<Rightarrow> error + bool" where
  "any_matches re self [] column = Inr False"
| "any_matches re self (pattern # patterns) column =
     (case matches_pattern re self pattern column of
        Inl e \<Rightarrow> Inl e
      | Inr b \<Rightarrow> if b then Inr True else any_matches re self patterns column)"

text \<open>The list comprehension of lines 115 to 121, over \<^verbatim>\<open>dataframe.columns\<close> in order.\<close>

fun select_columns ::
  "re_match \<Rightarrow> 'a stack_transform_scheme \<Rightarrow> string list \<Rightarrow> error + string list" where
  "select_columns re self [] = Inr []"
| "select_columns re self (column # rest) =
     (case any_matches re self (columns_names self) column of
        Inl e \<Rightarrow> Inl e
      | Inr b \<Rightarrow>
          (case select_columns re self rest of
             Inl e \<Rightarrow> Inl e
           | Inr cols \<Rightarrow> Inr (if b then column # cols else cols)))"

text \<open>
  \<^verbatim>\<open>transform\<close> (lines 105 to 128). In line 128 the name of the owning feature is read
  before the table engine is called.
\<close>

definition transform ::
  "re_match \<Rightarrow> 'a stack_transform_scheme \<Rightarrow> 'v dataframe \<Rightarrow> error + 'v dataframe" where
  "transform re self dataframe =
     (case select_columns re self (columns dataframe) of
        Inl e \<Rightarrow> Inl e
      | Inr cols \<Rightarrow>
          if cols = [] then
            Inl (ValueError ''Columns not found, columns in df: {}'' (columns dataframe))
          else
            (case parent self of
               None \<Rightarrow> Inl AttributeError
             | Some f \<Rightarrow> withColumn dataframe (name f) cols))"



text \<open>
  No evaluation of a pattern on a column raises. In simplified mode this always holds; in
  regex mode it says that the engine accepts every pattern.
\<close>

definition no_raise :: "re_match \<Rightarrow> 'a stack_transform_scheme \<Rightarrow> string list \<Rightarrow> bool" where
  "no_raise re self cols \<longleftrightarrow>
     (\<forall>c \<in> set cols. \<forall>p \<in> set (columns_names self).
        matches_pattern re self p c = Inr True \<or> matches_pattern re self p c = Inr False)"

text \<open>The column matches at least one pattern.\<close>

definition matches_any :: "re_match \<Rightarrow> 'a stack_transform_scheme \<Rightarrow> string \<Rightarrow> bool" where
  "matches_any re self c \<longleftrightarrow>
     (\<exists>p \<in> set (columns_names self). matches_pattern re self p c = Inr True)"

subsection \<open>Facts about the matcher\<close>

lemma str_split_not_Nil: "str_split sep s \<noteq> []"
  by (induction s) (auto split: list.splits)

lemma hd_str_split: "hd (str_split sep s) = takeWhile (\<lambda>c. c \<noteq> sep) s"
  by (induction s) (auto split: list.splits simp: str_split_not_Nil)

lemma str_split_snoc:
  "str_split sep (s @ [c]) =
     (if c = sep then str_split sep s @ [[]]
      else butlast (str_split sep s) @ [last (str_split sep s) @ [c]])"
proof (induction s)
  case Nil
  show ?case by simp
next
  case (Cons x s)
  obtain t ts where t: "str_split sep s = t # ts"
    using str_split_not_Nil [of sep s] by (cases "str_split sep s") auto
  show ?case
  proof (cases "c = sep")
    case True
    with Cons t show ?thesis by simp
  next
    case False
    with Cons t show ?thesis by (cases ts) auto
  qed
qed

lemma last_str_split: "last (str_split sep s) = rev (takeWhile (\<lambda>c. c \<noteq> sep) (rev s))"
  by (induction s rule: rev_induct) (simp_all add: str_split_snoc str_split_not_Nil)

lemma matches_pattern_simplified:
  assumes "\<not> regex_enabled self"
  shows "matches_pattern re self pattern column =
           Inr (let p = (if prefix ''!'' pattern then drop 1 pattern else pattern);
                    m = (prefix (hd (str_split CHR ''*'' p)) column
                         \<and> suffix (last (str_split CHR ''*'' p)) column)
                in if prefix ''!'' pattern then \<not> m else m)"
proof -
  define p where "p = (if prefix ''!'' pattern then drop 1 pattern else pattern)"
  obtain s ss where split: "str_split CHR ''*'' p = s # ss"
    using str_split_not_Nil [of "CHR ''*''" p] by (cases "str_split CHR ''*'' p") auto
  have "matches_pattern re self pattern column =
          Inr (let m = (prefix (hd (str_split CHR ''*'' p)) column
                        \<and> suffix (last (str_split CHR ''*'' p)) column)
               in if prefix ''!'' pattern then \<not> m else m)"
    using assms split unfolding matches_pattern_def Let_def p_def [symmetric]
    by (cases "prefix ''!'' pattern") simp_all
  then show ?thesis
    by (simp add: Let_def p_def)
qed

text \<open>
  In simplified mode a pattern without a leading \<^verbatim>\<open>!\<close> matches the columns that start
  with its text before the first \<^verbatim>\<open>*\<close> and end with its text after the last one; with
  no \<^verbatim>\<open>*\<close> both are the whole pattern. After a leading \<^verbatim>\<open>!\<close> the result is the
  opposite, for the rest of the pattern.
\<close>

lemma matches_pattern_segments:
  assumes "\<not> regex_enabled self" and "\<not> prefix ''!'' pattern"
  shows "matches_pattern re self pattern column =
           Inr (prefix (takeWhile (\<lambda>c. c \<noteq> CHR ''*'') pattern) column
                \<and> suffix (rev (takeWhile (\<lambda>c. c \<noteq> CHR ''*'') (rev pattern))) column)"
  using assms by (simp add: matches_pattern_simplified hd_str_split last_str_split)

lemma matches_pattern_negated:
  assumes "\<not> regex_enabled self"
  shows "matches_pattern re self (CHR ''!'' # q) column =
           Inr (\<not> (prefix (takeWhile (\<lambda>c. c \<noteq> CHR ''*'') q) column
                    \<and> suffix (rev (takeWhile (\<lambda>c. c \<noteq> CHR ''*'') (rev q))) column))"
  using assms by (simp add: matches_pattern_simplified hd_str_split last_str_split)

lemma matches_pattern_simplified_total:
  assumes "\<not> regex_enabled self"
  shows "matches_pattern re self pattern column = Inr True
         \<or> matches_pattern re self pattern column = Inr False"
  using assms by (simp add: matches_pattern_simplified Let_def)

text \<open>
  C3. The claim: in simplified mode a pattern without \<^verbatim>\<open>*\<close> and without a leading
  \<^verbatim>\<open>!\<close> matches a column exactly when it equals the column's name. The code at the
  pattern \<^verbatim>\<open>id\<close> and the column \<^verbatim>\<open>id_x_id\<close>: the only segment of the split is both
  the prefix and the suffix asked of the column, so the column matches though its name is
  not the pattern.
\<close>

theorem full_name_matches_longer_column:
  "matches_pattern re_match_plain (StackTransform_init [''id''] False) ''id'' ''id_x_id'' = Inr True
   \<and> CHR ''*'' \<notin> set ''id'' \<and> \<not> prefix ''!'' ''id'' \<and> ''id'' \<noteq> ''id_x_id''"
  by (simp add: matches_pattern_def StackTransform_init_def suffix_def)



text \<open>
  C6, as the claim states it, fails when the pattern after the \<^verbatim>\<open>!\<close> starts with
  \<^verbatim>\<open>!\<close> itself: only one \<^verbatim>\<open>!\<close> is stripped. For \<open>Q\<close> = \<^verbatim>\<open>!x\<close> and the column
  \<^verbatim>\<open>y\<close> the matcher returns true both for \<^verbatim>\<open>!\<close> followed by \<open>Q\<close> and for \<open>Q\<close>.
\<close>

theorem double_negation_counterexample:
  "matches_pattern re_match_plain (StackTransform_init [''!!x''] False) (''!'' @ ''!x'') ''y''
     = Inr True
   \<and> matches_pattern re_match_plain (StackTransform_init [''!!x''] False) ''!x'' ''y''
     = Inr True"
  by (simp add: matches_pattern_def StackTransform_init_def suffix_def)

text \<open>
  C6, amended. In simplified mode, for every column name and every pattern \<open>q\<close> that does
  not start with \<^verbatim>\<open>!\<close>, the matcher on \<^verbatim>\<open>!\<close> followed by \<open>q\<close> returns the negation of
  what it returns on \<open>q\<close>.
\<close>

theorem negation_complements:
  "\<not> regex_enabled self \<Longrightarrow> \<not> prefix ''!'' q \<Longrightarrow>
     \<exists>b. matches_pattern re self q column = Inr b
         \<and> matches_pattern re self (''!'' @ q) column = Inr (\<not> b)"
  by (simp add: matches_pattern_segments matches_pattern_negated)

theorem negation_complements_witness:
  "\<not> regex_enabled (StackTransform_init [''!foo''] False) \<and> \<not> prefix ''!'' ''foo''
   \<and> matches_pattern re_match_plain (StackTransform_init [''!foo''] False) ''foo'' ''foo''
       = Inr True
   \<and> matches_pattern re_match_plain (StackTransform_init [''!foo''] False) (''!'' @ ''foo'') ''foo''
       = Inr False"
  using negation_complements [where self = "StackTransform_init [''!foo''] False"
      and q = "''foo''" and re = re_match_plain and column = "''foo''"]
  by (simp add: StackTransform_init_def matches_pattern_def)

text \<open>
  C7, as the claim states it, fails for a pattern with a leading \<^verbatim>\<open>!\<close>: the pattern
  \<^verbatim>\<open>!id_*_*\<close> matches the column \<^verbatim>\<open>feature\<close>, which starts neither with \<^verbatim>\<open>!id_\<close>
  nor with \<^verbatim>\<open>id_\<close>.
\<close>

theorem negated_multi_wildcard_counterexample:
  "matches_pattern re_match_plain (StackTransform_init [''!id_*_*''] False) ''!id_*_*'' ''feature''
     = Inr True
   \<and> \<not> (prefix ''!id_'' ''feature'' \<and> suffix '''' ''feature'')
   \<and> \<not> (prefix ''id_'' ''feature'' \<and> suffix '''' ''feature'')"
  by (simp add: matches_pattern_def StackTransform_init_def)

text \<open>
  C7, amended. In simplified mode, for a pattern with two or more \<^verbatim>\<open>*\<close>, written as
  \<open>a\<close>, \<^verbatim>\<open>*\<close>, \<open>m\<close>, \<^verbatim>\<open>*\<close>, \<open>b\<close> with no \<^verbatim>\<open>*\<close> in \<open>a\<close> and in \<open>b\<close>: when the pattern
  has no leading \<^verbatim>\<open>!\<close> the matcher returns true exactly when the column starts with \<open>a\<close>
  and ends with \<open>b\<close>; with a \<^verbatim>\<open>!\<close> put before the pattern it returns the opposite. The
  middle \<open>m\<close> has no effect in both cases.
\<close>

theorem multi_wildcard_first_last:
  "\<not> regex_enabled self \<Longrightarrow> CHR ''*'' \<notin> set a \<Longrightarrow> CHR ''*'' \<notin> set b \<Longrightarrow>
     (\<not> prefix ''!'' a \<longrightarrow>
        matches_pattern re self (a @ ''*'' @ m @ ''*'' @ b) column
          = Inr (prefix a column \<and> suffix b column))
     \<and> matches_pattern re self (''!'' @ a @ ''*'' @ m @ ''*'' @ b) column
          = Inr (\<not> (prefix a column \<and> suffix b column))"
proof (intro conjI impI)
  assume h: "\<not> regex_enabled self" "CHR ''*'' \<notin> set a" "CHR ''*'' \<notin> set b"
  have l: "rev (takeWhile (\<lambda>c. c \<noteq> CHR ''*'') (rev (a @ ''*'' @ m @ ''*'' @ b))) = b"
    using h by (simp add: takeWhile_append)
  have f: "takeWhile (\<lambda>c. c \<noteq> CHR ''*'') (a @ ''*'' @ m @ ''*'' @ b) = a"
    using h by (simp add: takeWhile_append)
  show "matches_pattern re self (''!'' @ a @ ''*'' @ m @ ''*'' @ b) column
          = Inr (\<not> (prefix a column \<and> suffix b column))"
    using matches_pattern_negated [OF h(1), of re "a @ ''*'' @ m @ ''*'' @ b" column]
    unfolding l f by simp
  assume n: "\<not> prefix ''!'' a"
  have "\<not> prefix ''!'' (a @ ''*'' @ m @ ''*'' @ b)"
    using n by (cases a) auto
  from matches_pattern_segments [OF h(1) this, of re column]
  show "matches_pattern re self (a @ ''*'' @ m @ ''*'' @ b) column
          = Inr (prefix a column \<and> suffix b column)"
    unfolding l f .
qed

theorem multi_wildcard_first_last_witness:
  "\<not> regex_enabled (StackTransform_init [] False)
   \<and> CHR ''*'' \<notin> set ''id_'' \<and> CHR ''*'' \<notin> set ''_x'' \<and> \<not> prefix ''!'' ''id_''
   \<and> matches_pattern re_match_plain (StackTransform_init [] False) ''id_*mid*_x'' ''id_a_x''
       = Inr True
   \<and> matches_pattern re_match_plain (StackTransform_init [] False) ''!id_*mid*_x'' ''id_a_x''
       = Inr False"
  using multi_wildcard_first_last [where self = "StackTransform_init [] False" and a = "''id_''"
      and b = "''_x''" and m = "''mid''" and re = re_match_plain and column = "''id_a_x''"]
  by (simp add: StackTransform_init_def suffix_def)

text \<open>
  C8. In simplified mode the pattern \<^verbatim>\<open>*\<close> matches every column name, and so does the
  empty pattern.
\<close>

theorem star_and_empty_match_all:
  "\<not> regex_enabled self \<Longrightarrow>
     matches_pattern re self ''*'' column = Inr True
     \<and> matches_pattern re self '''' column = Inr True"
  by (simp add: matches_pattern_simplified)

theorem star_and_empty_match_all_witness:
  "\<not> regex_enabled (StackTransform_init [''*''] False)
   \<and> matches_pattern re_match_plain (StackTransform_init [''*''] False) ''*'' ''id_a'' = Inr True
   \<and> matches_pattern re_match_plain (StackTransform_init [''*''] False) '''' ''id_a'' = Inr True"
  using star_and_empty_match_all [of "StackTransform_init [''*''] False" re_match_plain "''id_a''"]
  by (simp add: StackTransform_init_def)

subsection \<open>Column selection\<close>

lemma any_matches_Inr:
  "any_matches re self ps c = Inr b \<Longrightarrow>
     b = (\<exists>p \<in> set ps. matches_pattern re self p c = Inr True)"
proof (induction ps)
  case Nil
  then show ?case by simp
next
  case (Cons p ps)
  then show ?case
    by (cases "matches_pattern re self p c") (auto split: if_splits)
qed

lemma any_matches_total:
  "\<forall>p \<in> set ps. matches_pattern re self p c = Inr True \<or> matches_pattern re self p c = Inr False \<Longrightarrow>
     any_matches re self ps c = Inr (\<exists>p \<in> set ps. matches_pattern re self p c = Inr True)"
  by (induction ps) auto

lemma select_columns_Inr:
  "select_columns re self cols = Inr sel \<Longrightarrow> sel = filter (matches_any re self) cols"
proof (induction cols arbitrary: sel)
  case Nil
  then show ?case by simp
next
  case (Cons c cols)
  from Cons.prems obtain b sel' where
    b: "any_matches re self (columns_names self) c = Inr b" and
    s: "select_columns re self cols = Inr sel'" and
    e: "sel = (if b then c # sel' else sel')"
    by (auto split: sum.splits)
  from any_matches_Inr [OF b] have "b = matches_any re self c"
    by (simp add: matches_any_def)
  with Cons.IH [OF s] e show ?case by simp
qed

lemma select_columns_total:
  "no_raise re self cols \<Longrightarrow> select_columns re self cols = Inr (filter (matches_any re self) cols)"
proof (induction cols)
  case Nil
  then show ?case by simp
next
  case (Cons c cols)
  from Cons.prems have "no_raise re self cols" and
    c: "\<forall>p \<in> set (columns_names self).
          matches_pattern re self p c = Inr True \<or> matches_pattern re self p c = Inr False"
    by (simp_all add: no_raise_def)
  with Cons.IH any_matches_total [OF c] show ?case
    by (simp add: matches_any_def)
qed

lemma no_raise_simplified: "\<not> regex_enabled self \<Longrightarrow> no_raise re self cols"
  unfolding no_raise_def using matches_pattern_simplified_total by blast

lemma matches_any_cong:
  "set (columns_names self') = set (columns_names self) \<Longrightarrow>
   regex_enabled self' = regex_enabled self \<Longrightarrow>
   matches_any re self' c = matches_any re self c"
  by (simp add: matches_any_def matches_pattern_def)

lemma no_raise_cong:
  "set (columns_names self') = set (columns_names self) \<Longrightarrow>
   regex_enabled self' = regex_enabled self \<Longrightarrow>
   no_raise re self' cols = no_raise re self cols"
  by (simp add: no_raise_def matches_pattern_def)

text \<open>
  C4. Whenever the selection returns, it returns the columns of the table that match at
  least one pattern, in the order of the table. It returns whenever no evaluation of a
  pattern raises, which is always so in simplified mode. The result is a subsequence of the
  table's columns, and an instance with the same patterns in another order selects the
  same columns.
\<close>

theorem selected_columns_in_table_order:
  "(\<forall>sel. select_columns re self cols = Inr sel \<longrightarrow> sel = filter (matches_any re self) cols)
   \<and> (no_raise re self cols \<longrightarrow>
        select_columns re self cols = Inr (filter (matches_any re self) cols))
   \<and> (\<not> regex_enabled self \<longrightarrow> no_raise re self cols)
   \<and> subseq (filter (matches_any re self) cols) cols
   \<and> (set (columns_names self') = set (columns_names self)
        \<and> regex_enabled self' = regex_enabled self \<and> no_raise re self cols \<longrightarrow>
        select_columns re self' cols = select_columns re self cols)"
proof (intro conjI allI impI)
  fix sel
  assume "select_columns re self cols = Inr sel"
  then show "sel = filter (matches_any re self) cols" by (rule select_columns_Inr)
next
  assume "no_raise re self cols"
  then show "select_columns re self cols = Inr (filter (matches_any re self) cols)"
    by (rule select_columns_total)
next
  assume "\<not> regex_enabled self"
  then show "no_raise re self cols" by (rule no_raise_simplified)
next
  show "subseq (filter (matches_any re self) cols) cols" by simp
next
  assume h: "set (columns_names self') = set (columns_names self)
        \<and> regex_enabled self' = regex_enabled self \<and> no_raise re self cols"
  then have n: "no_raise re self' cols"
    using no_raise_cong [of self' self re cols] by simp
  have "matches_any re self' = matches_any re self"
    using h matches_any_cong [of self' self re] by (intro ext) simp
  with h n show "select_columns re self' cols = select_columns re self cols"
    by (simp add: select_columns_total)
qed

theorem selected_columns_in_table_order_witness:
  "select_columns re_match_plain (StackTransform_init [''id_b'', ''id_*''] False)
       [''id_a'', ''feature'', ''id_b''] = Inr [''id_a'', ''id_b'']
   \<and> no_raise re_match_plain (StackTransform_init [''id_b'', ''id_*''] False)
       [''id_a'', ''feature'', ''id_b'']
   \<and> \<not> regex_enabled (StackTransform_init [''id_b'', ''id_*''] False)
   \<and> filter (matches_any re_match_plain (StackTransform_init [''id_b'', ''id_*''] False))
        [''id_a'', ''feature'', ''id_b''] = [''id_a'', ''id_b'']
   \<and> set (columns_names (StackTransform_init [''id_*'', ''id_b''] False))
       = set (columns_names (StackTransform_init [''id_b'', ''id_*''] False))
   \<and> select_columns re_match_plain (StackTransform_init [''id_*'', ''id_b''] False)
       [''id_a'', ''feature'', ''id_b''] = Inr [''id_a'', ''id_b'']"
  using selected_columns_in_table_order [where re = re_match_plain
      and self = "StackTransform_init [''id_b'', ''id_*''] False"
      and self' = "StackTransform_init [''id_*'', ''id_b''] False"
      and cols = "[''id_a'', ''feature'', ''id_b'']"]
  by (simp add: StackTransform_init_def matches_any_def matches_pattern_def suffix_def insert_commute)

subsection \<open>The table engine\<close>









text \<open>
  When the owning feature has the name of a column of the table, that column is replaced
  and no column is added.
\<close>

lemma transform_replaces_same_named_column:
  "transform re_match_plain
        \<lparr>columns_names = [''id_*''], regex_enabled = False,
         parent = Some \<lparr>name = ''id_a'', description = ''ids''\<rparr>\<rparr>
        \<lparr>columns = [''feature'', ''id_a'', ''id_b''], rows = [[100, 1, 2], [120, 3, 4 :: int]]\<rparr>
      = Inr \<lparr>columns = [''feature'', ''id_a'', ''id_b''],
             rows = [[100, 1, 2], [100, 2, 2], [120, 3, 4], [120, 4, 4]]\<rparr>"
  by (simp add: matches_pattern_def suffix_def
      transform_def withColumn_def explode_def put_column_def col_value_def)

subsection \<open>Errors, determinism, empty pattern set\<close>




lemma select_columns_no_patterns:
  "columns_names self = [] \<Longrightarrow> select_columns re self cols = Inr []"
  by (induction cols) simp_all








text \<open>An instance that is not bound to a feature raises though a column matches.\<close>

lemma unbound_instance_raises:
  "transform re_match_plain (StackTransform_init [''id_a''] False)
        \<lparr>columns = [''feature'', ''id_a''], rows = [[100, 1 :: int]]\<rparr>
      = Inl AttributeError"
  by (simp add: StackTransform_init_def matches_pattern_def transform_def)




text \<open>
  C10. The constructor accepts an empty tuple of patterns, and \<^verbatim>\<open>transform\<close> of such an
  instance raises the \<^verbatim>\<open>ValueError\<close> of line 124 on every table, in both modes, bound to
  a feature or not.
\<close>

theorem no_patterns_always_raises:
  "columns_names (StackTransform_init [] is_regex) = []
   \<and> transform re (StackTransform_init [] is_regex) df
       = Inl (ValueError ''Columns not found, columns in df: {}'' (columns df))
   \<and> transform re ((StackTransform_init [] is_regex)\<lparr>parent := p\<rparr>) df
       = Inl (ValueError ''Columns not found, columns in df: {}'' (columns df))"
  by (simp add: transform_def select_columns_no_patterns StackTransform_init_def)

theorem no_patterns_always_raises_witness:
  "transform re_match_plain
     ((StackTransform_init [] True)\<lparr>parent := Some \<lparr>name = ''stack_ids'', description = ''ids''\<rparr>\<rparr>)
     \<lparr>columns = [''feature'', ''id_a''], rows = [[100, 1 :: int]]\<rparr>
   = Inl (ValueError ''Columns not found, columns in df: {}'' [''feature'', ''id_a''])"
  using no_patterns_always_raises [where re = re_match_plain and is_regex = True
      and p = "Some \<lparr>name = ''stack_ids'', description = ''ids''\<rparr>"
      and df = "\<lparr>columns = [''feature'', ''id_a''], rows = [[100, 1 :: int]]\<rparr>"]
  by simp

end
